theory Spec2Isabelle
  imports Main
begin

section \<open>Python dictionaries with string keys and string values\<close>

text \<open>
  The module \<^verbatim>\<open>src/helpers/resting_state_networks.py\<close> consists of two dictionary
  displays bound to the module-level names \<^verbatim>\<open>left_ordering\<close> and
  \<^verbatim>\<open>right_ordering\<close>. A Python \<^verbatim>\<open>dict\<close> keeps its items in insertion order, so
  it is modelled as an association list in which every key occurs once.
\<close>

type_synonym pydict = "(string \<times> string) list"

text \<open>Subscription of a dictionary with an absent key raises \<^verbatim>\<open>KeyError(key)\<close>.\<close>

datatype error = KeyError string

text \<open>
  \<^verbatim>\<open>d[k] = v\<close>: an existing key keeps its position and gets the new value, a new key is
  appended.
\<close>

fun dict_setitem :: "pydict \<Rightarrow> string \<Rightarrow> string \<Rightarrow> pydict" where
  "dict_setitem [] k v = [(k, v)]"
| "dict_setitem ((k', v') # d) k v =
     (if k' = k then (k', v) # d else (k', v') # dict_setitem d k v)"

text \<open>
  A dictionary display \<^verbatim>\<open>{k1: v1, k2: v2, ...}\<close> starts from the empty dictionary and
  stores the items from left to right; a repeated key would keep its last value.
\<close>

definition dict_display :: "(string \<times> string) list \<Rightarrow> pydict" where
  "dict_display kvs = foldl (\<lambda>d (k, v). dict_setitem d k v) [] kvs"

text \<open>\<^verbatim>\<open>d[k]\<close>: the value stored under \<open>k\<close>, or \<^verbatim>\<open>KeyError\<close>.\<close>

fun dict_getitem :: "pydict \<Rightarrow> string \<Rightarrow> error + string" where
  "dict_getitem [] k = Inl (KeyError k)"
| "dict_getitem ((k', v) # d) k = (if k' = k then Inr v else dict_getitem d k)"

text \<open>\<^verbatim>\<open>list(d.keys())\<close>, \<^verbatim>\<open>list(d.values())\<close> and \<^verbatim>\<open>len(d)\<close>.\<close>

definition dict_keys :: "pydict \<Rightarrow> string list" where
  "dict_keys d = map fst d"

definition dict_values :: "pydict \<Rightarrow> string list" where
  "dict_values d = map snd d"

definition dict_len :: "pydict \<Rightarrow> nat" where
  "dict_len d = length d"

text \<open>\<^verbatim>\<open>[k for k, v in d.items() if v == l]\<close>: the regions assigned to the network \<open>l\<close>.\<close>

definition keys_with_label :: "pydict \<Rightarrow> string \<Rightarrow> string list" where
  "keys_with_label d l = map fst (filter (\<lambda>(k, v). v = l) d)"

section \<open>The two hemisphere tables\<close>

definition left_ordering :: pydict where
  "left_ordering = dict_display
      [(''isthmuscingulate'', ''DMN''),
       (''medialorbitofrontal'', ''DMN''),
       (''posteriorcingulate'', ''DMN''),
       (''precuneus'', ''DMN''),
       (''rostralanteriorcingulate'', ''DMN''),
       (''lateralorbitofrontal'', ''DMN''),
       (''parahippocampal'', ''DMN''),
       (''caudalanteriorcingulate'', ''DAN''),
       (''inferiortemporal'', ''DAN''),
       (''middletemporal'', ''DAN''),
       (''parsopercularis'', ''DAN''),
       (''parsorbitalis'', ''DAN''),
       (''parstriangularis'', ''DAN''),
       (''insula'', ''SAN''),
       (''rostralmiddlefrontal'', ''SAN''),
       (''supramarginal'', ''SAN''),
       (''caudalmiddlefrontal'', ''SAN''),
       (''superiortemporal'', ''AUD''),
       (''cuneus'', ''VIS''),
       (''lateraloccipital'', ''VIS''),
       (''fusiform'', ''VIS''),
       (''lingual'', ''VIS''),
       (''bankssts'', ''other''),
       (''entorhinal'', ''other''),
       (''frontalpole'', ''other''),
       (''inferiorparietal'', ''other''),
       (''superiorfrontal'', ''other''),
       (''paracentral'', ''other''),
       (''pericalcarine'', ''other''),
       (''postcentral'', ''other''),
       (''precentral'', ''other''),
       (''superiorparietal'', ''other''),
       (''temporalpole'', ''other''),
       (''transversetemporal'', ''other'')]"

definition right_ordering :: pydict where
  "right_ordering = dict_display
      [(''isthmuscingulate'', ''DMN''),
       (''medialorbitofrontal'', ''DMN''),
       (''posteriorcingulate'', ''DMN''),
       (''precuneus'', ''DMN''),
       (''rostralanteriorcingulate'', ''DMN''),
       (''lateralorbitofrontal'', ''DMN''),
       (''parahippocampal'', ''DMN''),
       (''caudalanteriorcingulate'', ''DMN''),
       (''inferiortemporal'', ''DAN''),
       (''middletemporal'', ''DAN''),
       (''parsopercularis'', ''DAN''),
       (''parsorbitalis'', ''DAN''),
       (''parstriangularis'', ''DAN''),
       (''insula'', ''SAN''),
       (''rostralmiddlefrontal'', ''SAN''),
       (''supramarginal'', ''SAN''),
       (''caudalmiddlefrontal'', ''SAN''),
       (''superiortemporal'', ''AUD''),
       (''cuneus'', ''VIS''),
       (''lateraloccipital'', ''VIS''),
       (''fusiform'', ''VIS''),
       (''lingual'', ''VIS''),
       (''bankssts'', ''other''),
       (''entorhinal'', ''other''),
       (''frontalpole'', ''other''),
       (''inferiorparietal'', ''other''),
       (''superiorfrontal'', ''other''),
       (''paracentral'', ''other''),
       (''pericalcarine'', ''other''),
       (''postcentral'', ''other''),
       (''precentral'', ''other''),
       (''superiorparietal'', ''other''),
       (''temporalpole'', ''other''),
       (''transversetemporal'', ''other'')]"

section \<open>Module state and lookups\<close>

text \<open>
  The module's global namespace after import holds the two tables. Python dictionaries
  are mutable objects, so every access to a table is modelled as an operation on this
  state that returns the state it leaves behind.
\<close>

record module_globals =
  glob_left_ordering :: pydict
  glob_right_ordering :: pydict

definition module_init :: module_globals where
  "module_init = \<lparr>glob_left_ordering = left_ordering, glob_right_ordering = right_ordering\<rparr>"

datatype table_name = LeftOrdering | RightOrdering

fun load_global :: "table_name \<Rightarrow> module_globals \<Rightarrow> pydict" where
  "load_global LeftOrdering g = glob_left_ordering g"
| "load_global RightOrdering g = glob_right_ordering g"

text \<open>\<^verbatim>\<open>left_ordering[k]\<close> or \<^verbatim>\<open>right_ordering[k]\<close>, evaluated in the state \<open>g\<close>.\<close>

definition lookup :: "table_name \<Rightarrow> string \<Rightarrow> module_globals \<Rightarrow> (error + string) \<times> module_globals" where
  "lookup n k g = (dict_getitem (load_global n g) k, g)"








section \<open>Character classes of region names\<close>

text \<open>ASCII lowercase letters, uppercase letters, and the whitespace of \<^verbatim>\<open>str.isspace\<close>.\<close>

definition is_lower :: "char \<Rightarrow> bool" where
  "is_lower c = (97 \<le> (of_char c :: nat) \<and> (of_char c :: nat) \<le> 122)"

definition is_upper :: "char \<Rightarrow> bool" where
  "is_upper c = (65 \<le> (of_char c :: nat) \<and> (of_char c :: nat) \<le> 90)"

definition is_space :: "char \<Rightarrow> bool" where
  "is_space c = ((of_char c :: nat) \<in> {9, 10, 11, 12, 13, 28, 29, 30, 31, 32, 133, 160})"

section \<open>Properties of the dictionary operations\<close>

lemma dict_setitem_fresh: "k \<notin> fst ` set d \<Longrightarrow> dict_setitem d k v = d @ [(k, v)]"
  by (induction d) auto

lemma foldl_setitem_distinct:
  "distinct (map fst d @ map fst kvs) \<Longrightarrow>
     foldl (\<lambda>d (k, v). dict_setitem d k v) d kvs = d @ kvs"
proof (induction kvs arbitrary: d)
  case Nil
  then show ?case by simp
next
  case (Cons kv kvs)
  obtain k v where kv: "kv = (k, v)" by (cases kv)
  from Cons.prems kv have fresh: "k \<notin> fst ` set d" by auto
  from Cons.prems kv have "distinct (map fst (d @ [(k, v)]) @ map fst kvs)" by auto
  from Cons.IH [OF this] show ?case
    by (simp add: kv dict_setitem_fresh [OF fresh])
qed

lemma dict_display_distinct: "distinct (map fst kvs) \<Longrightarrow> dict_display kvs = kvs"
  using foldl_setitem_distinct [of "[]" kvs] by (simp add: dict_display_def)

lemma dict_getitem_absent: "k \<notin> set (dict_keys d) \<Longrightarrow> dict_getitem d k = Inl (KeyError k)"
  unfolding dict_keys_def by (induction d) auto

lemma dict_getitem_present: "k \<in> set (dict_keys d) \<Longrightarrow> \<exists>v. dict_getitem d k = Inr v"
  unfolding dict_keys_def by (induction d) force+

lemma dict_getitem_Inr_iff: "(\<exists>v. dict_getitem d k = Inr v) \<longleftrightarrow> k \<in> set (dict_keys d)"
proof
  assume "\<exists>v. dict_getitem d k = Inr v"
  then obtain v where "dict_getitem d k = Inr v" ..
  then show "k \<in> set (dict_keys d)"
    by (cases "k \<in> set (dict_keys d)") (simp_all add: dict_getitem_absent)
next
  assume "k \<in> set (dict_keys d)"
  then show "\<exists>v. dict_getitem d k = Inr v"
    by (rule dict_getitem_present)
qed

lemma dict_getitem_value: "dict_getitem d k = Inr v \<Longrightarrow> v \<in> set (dict_values d)"
  unfolding dict_values_def by (induction d) (auto split: if_splits)

lemma dict_getitem_other_key:
  "k \<noteq> c \<Longrightarrow> dict_getitem (pre @ (c, v) # post) k = dict_getitem (pre @ (c, w) # post) k"
  by (induction pre) auto

section \<open>The tables as evaluated displays\<close>

lemma region_names_distinct:
  "distinct
    [''isthmuscingulate'',
     ''medialorbitofrontal'',
     ''posteriorcingulate'',
     ''precuneus'',
     ''rostralanteriorcingulate'',
     ''lateralorbitofrontal'',
     ''parahippocampal'',
     ''caudalanteriorcingulate'',
     ''inferiortemporal'',
     ''middletemporal'',
     ''parsopercularis'',
     ''parsorbitalis'',
     ''parstriangularis'',
     ''insula'',
     ''rostralmiddlefrontal'',
     ''supramarginal'',
     ''caudalmiddlefrontal'',
     ''superiortemporal'',
     ''cuneus'',
     ''lateraloccipital'',
     ''fusiform'',
     ''lingual'',
     ''bankssts'',
     ''entorhinal'',
     ''frontalpole'',
     ''inferiorparietal'',
     ''superiorfrontal'',
     ''paracentral'',
     ''pericalcarine'',
     ''postcentral'',
     ''precentral'',
     ''superiorparietal'',
     ''temporalpole'',
     ''transversetemporal'']"
  by simp

lemma left_ordering_items:
  "left_ordering =
    [(''isthmuscingulate'', ''DMN''),
     (''medialorbitofrontal'', ''DMN''),
     (''posteriorcingulate'', ''DMN''),
     (''precuneus'', ''DMN''),
     (''rostralanteriorcingulate'', ''DMN''),
     (''lateralorbitofrontal'', ''DMN''),
     (''parahippocampal'', ''DMN''),
     (''caudalanteriorcingulate'', ''DAN''),
     (''inferiortemporal'', ''DAN''),
     (''middletemporal'', ''DAN''),
     (''parsopercularis'', ''DAN''),
     (''parsorbitalis'', ''DAN''),
     (''parstriangularis'', ''DAN''),
     (''insula'', ''SAN''),
     (''rostralmiddlefrontal'', ''SAN''),
     (''supramarginal'', ''SAN''),
     (''caudalmiddlefrontal'', ''SAN''),
     (''superiortemporal'', ''AUD''),
     (''cuneus'', ''VIS''),
     (''lateraloccipital'', ''VIS''),
     (''fusiform'', ''VIS''),
     (''lingual'', ''VIS''),
     (''bankssts'', ''other''),
     (''entorhinal'', ''other''),
     (''frontalpole'', ''other''),
     (''inferiorparietal'', ''other''),
     (''superiorfrontal'', ''other''),
     (''paracentral'', ''other''),
     (''pericalcarine'', ''other''),
     (''postcentral'', ''other''),
     (''precentral'', ''other''),
     (''superiorparietal'', ''other''),
     (''temporalpole'', ''other''),
     (''transversetemporal'', ''other'')]"
  unfolding left_ordering_def by (rule dict_display_distinct) (simp only: list.map fst_conv region_names_distinct)

lemma right_ordering_items:
  "right_ordering =
    [(''isthmuscingulate'', ''DMN''),
     (''medialorbitofrontal'', ''DMN''),
     (''posteriorcingulate'', ''DMN''),
     (''precuneus'', ''DMN''),
     (''rostralanteriorcingulate'', ''DMN''),
     (''lateralorbitofrontal'', ''DMN''),
     (''parahippocampal'', ''DMN''),
     (''caudalanteriorcingulate'', ''DMN''),
     (''inferiortemporal'', ''DAN''),
     (''middletemporal'', ''DAN''),
     (''parsopercularis'', ''DAN''),
     (''parsorbitalis'', ''DAN''),
     (''parstriangularis'', ''DAN''),
     (''insula'', ''SAN''),
     (''rostralmiddlefrontal'', ''SAN''),
     (''supramarginal'', ''SAN''),
     (''caudalmiddlefrontal'', ''SAN''),
     (''superiortemporal'', ''AUD''),
     (''cuneus'', ''VIS''),
     (''lateraloccipital'', ''VIS''),
     (''fusiform'', ''VIS''),
     (''lingual'', ''VIS''),
     (''bankssts'', ''other''),
     (''entorhinal'', ''other''),
     (''frontalpole'', ''other''),
     (''inferiorparietal'', ''other''),
     (''superiorfrontal'', ''other''),
     (''paracentral'', ''other''),
     (''pericalcarine'', ''other''),
     (''postcentral'', ''other''),
     (''precentral'', ''other''),
     (''superiorparietal'', ''other''),
     (''temporalpole'', ''other''),
     (''transversetemporal'', ''other'')]"
  unfolding right_ordering_def by (rule dict_display_distinct) (simp only: list.map fst_conv region_names_distinct)

lemma left_ordering_keys:
  "dict_keys left_ordering =
    [''isthmuscingulate'',
     ''medialorbitofrontal'',
     ''posteriorcingulate'',
     ''precuneus'',
     ''rostralanteriorcingulate'',
     ''lateralorbitofrontal'',
     ''parahippocampal'',
     ''caudalanteriorcingulate'',
     ''inferiortemporal'',
     ''middletemporal'',
     ''parsopercularis'',
     ''parsorbitalis'',
     ''parstriangularis'',
     ''insula'',
     ''rostralmiddlefrontal'',
     ''supramarginal'',
     ''caudalmiddlefrontal'',
     ''superiortemporal'',
     ''cuneus'',
     ''lateraloccipital'',
     ''fusiform'',
     ''lingual'',
     ''bankssts'',
     ''entorhinal'',
     ''frontalpole'',
     ''inferiorparietal'',
     ''superiorfrontal'',
     ''paracentral'',
     ''pericalcarine'',
     ''postcentral'',
     ''precentral'',
     ''superiorparietal'',
     ''temporalpole'',
     ''transversetemporal'']"
  by (simp add: dict_keys_def left_ordering_items)

lemma right_ordering_keys: "dict_keys right_ordering = dict_keys left_ordering"
  by (simp add: dict_keys_def left_ordering_items right_ordering_items)

lemma left_ordering_split:
  "left_ordering =
    [(''isthmuscingulate'', ''DMN''),
     (''medialorbitofrontal'', ''DMN''),
     (''posteriorcingulate'', ''DMN''),
     (''precuneus'', ''DMN''),
     (''rostralanteriorcingulate'', ''DMN''),
     (''lateralorbitofrontal'', ''DMN''),
     (''parahippocampal'', ''DMN'')] @
    (''caudalanteriorcingulate'', ''DAN'') #
    [(''inferiortemporal'', ''DAN''),
     (''middletemporal'', ''DAN''),
     (''parsopercularis'', ''DAN''),
     (''parsorbitalis'', ''DAN''),
     (''parstriangularis'', ''DAN''),
     (''insula'', ''SAN''),
     (''rostralmiddlefrontal'', ''SAN''),
     (''supramarginal'', ''SAN''),
     (''caudalmiddlefrontal'', ''SAN''),
     (''superiortemporal'', ''AUD''),
     (''cuneus'', ''VIS''),
     (''lateraloccipital'', ''VIS''),
     (''fusiform'', ''VIS''),
     (''lingual'', ''VIS''),
     (''bankssts'', ''other''),
     (''entorhinal'', ''other''),
     (''frontalpole'', ''other''),
     (''inferiorparietal'', ''other''),
     (''superiorfrontal'', ''other''),
     (''paracentral'', ''other''),
     (''pericalcarine'', ''other''),
     (''postcentral'', ''other''),
     (''precentral'', ''other''),
     (''superiorparietal'', ''other''),
     (''temporalpole'', ''other''),
     (''transversetemporal'', ''other'')]"
  by (simp add: left_ordering_items)

lemma right_ordering_split:
  "right_ordering =
    [(''isthmuscingulate'', ''DMN''),
     (''medialorbitofrontal'', ''DMN''),
     (''posteriorcingulate'', ''DMN''),
     (''precuneus'', ''DMN''),
     (''rostralanteriorcingulate'', ''DMN''),
     (''lateralorbitofrontal'', ''DMN''),
     (''parahippocampal'', ''DMN'')] @
    (''caudalanteriorcingulate'', ''DMN'') #
    [(''inferiortemporal'', ''DAN''),
     (''middletemporal'', ''DAN''),
     (''parsopercularis'', ''DAN''),
     (''parsorbitalis'', ''DAN''),
     (''parstriangularis'', ''DAN''),
     (''insula'', ''SAN''),
     (''rostralmiddlefrontal'', ''SAN''),
     (''supramarginal'', ''SAN''),
     (''caudalmiddlefrontal'', ''SAN''),
     (''superiortemporal'', ''AUD''),
     (''cuneus'', ''VIS''),
     (''lateraloccipital'', ''VIS''),
     (''fusiform'', ''VIS''),
     (''lingual'', ''VIS''),
     (''bankssts'', ''other''),
     (''entorhinal'', ''other''),
     (''frontalpole'', ''other''),
     (''inferiorparietal'', ''other''),
     (''superiorfrontal'', ''other''),
     (''paracentral'', ''other''),
     (''pericalcarine'', ''other''),
     (''postcentral'', ''other''),
     (''precentral'', ''other''),
     (''superiorparietal'', ''other''),
     (''temporalpole'', ''other''),
     (''transversetemporal'', ''other'')]"
  by (simp add: right_ordering_items)

section \<open>Sizes, values and key sets of the tables\<close>

lemma left_ordering_values:
  "set (dict_values left_ordering) = {''DMN'', ''DAN'', ''SAN'', ''AUD'', ''VIS'', ''other''}"
  by (simp add: dict_values_def left_ordering_items)

lemma right_ordering_values:
  "set (dict_values right_ordering) = {''DMN'', ''DAN'', ''SAN'', ''AUD'', ''VIS'', ''other''}"
  by (simp add: dict_values_def right_ordering_items)

lemma left_ordering_len: "dict_len left_ordering = 34"
  by (simp add: dict_len_def left_ordering_items)

lemma right_ordering_len: "dict_len right_ordering = 34"
  by (simp add: dict_len_def right_ordering_items)

lemma dict_keys_card: "distinct (dict_keys d) \<Longrightarrow> card (set (dict_keys d)) = dict_len d"
  using distinct_card [of "dict_keys d"] by (simp add: dict_keys_def dict_len_def)

lemma left_ordering_keys_distinct: "distinct (dict_keys left_ordering)"
  by (simp only: left_ordering_keys region_names_distinct)

lemma right_ordering_keys_distinct: "distinct (dict_keys right_ordering)"
  by (simp only: right_ordering_keys left_ordering_keys_distinct)

lemma left_ordering_card: "card (set (dict_keys left_ordering)) = 34"
  by (simp only: dict_keys_card [OF left_ordering_keys_distinct] left_ordering_len)

lemma right_ordering_card: "card (set (dict_keys right_ordering)) = 34"
  by (simp only: dict_keys_card [OF right_ordering_keys_distinct] right_ordering_len)

lemma dict_getitem_success_set: "{k. \<exists>v. dict_getitem d k = Inr v} = set (dict_keys d)"
  by (simp add: dict_getitem_Inr_iff)

lemma left_ordering_key_chars:
  "list_all (\<lambda>k. k \<noteq> [] \<and> list_all is_lower k \<and> \<not> list_ex is_upper k \<and> \<not> list_ex is_space k)
     (dict_keys left_ordering)"
  by (simp add: left_ordering_keys is_lower_def is_upper_def is_space_def)

section \<open>Lookups leave the module state alone\<close>


section \<open>Accesses by importing code\<close>














section \<open>The claims\<close>

text \<open>
  C1. The key sets of \<open>left_ordering\<close> and \<open>right_ordering\<close> are identical: every key
  of the left table is a key of the right table and every key of the right table is a key
  of the left table. Stated on the key sets and, equivalently, on the names for which
  subscription succeeds.
\<close>

theorem key_sets_identical:
  "set (dict_keys left_ordering) = set (dict_keys right_ordering) \<and>
   {k. \<exists>v. dict_getitem left_ordering k = Inr v} = {k. \<exists>v. dict_getitem right_ordering k = Inr v}"
  by (simp only: dict_getitem_success_set right_ordering_keys)

text \<open>
  C2, as amended. Each hemisphere table contains exactly 34 region-name keys (not 33):
  the length of each dictionary is 34, its key set has 34 elements, and subscription
  succeeds on exactly 34 distinct region names per table.
\<close>

theorem table_size_is_34:
  "dict_len left_ordering = 34 \<and> dict_len right_ordering = 34 \<and>
   card (set (dict_keys left_ordering)) = 34 \<and> card (set (dict_keys right_ordering)) = 34 \<and>
   card {k. \<exists>v. dict_getitem left_ordering k = Inr v} = 34 \<and>
   card {k. \<exists>v. dict_getitem right_ordering k = Inr v} = 34"
  by (simp only: dict_getitem_success_set left_ordering_len right_ordering_len
        left_ordering_card right_ordering_card)

text \<open>
  C2, as stated, fails: neither table has 33 keys, and neither key set has 33 elements.
\<close>

theorem table_size_33_counterexample:
  "\<not> (dict_len left_ordering = 33 \<and> dict_len right_ordering = 33) \<and>
   card (set (dict_keys left_ordering)) \<noteq> 33 \<and> card (set (dict_keys right_ordering)) \<noteq> 33"
  by (simp add: left_ordering_len left_ordering_card right_ordering_card)

text \<open>
  C3. Whenever \<open>left_ordering[k]\<close> or \<open>right_ordering[k]\<close> returns a value, that value
  is one of the six labels DMN, DAN, SAN, AUD, VIS, other; and no other string occurs
  among the values of either table.
\<close>

theorem values_in_label_set:
  "(dict_getitem left_ordering k = Inr v \<longrightarrow>
      v \<in> {''DMN'', ''DAN'', ''SAN'', ''AUD'', ''VIS'', ''other''}) \<and>
   (dict_getitem right_ordering k = Inr v \<longrightarrow>
      v \<in> {''DMN'', ''DAN'', ''SAN'', ''AUD'', ''VIS'', ''other''}) \<and>
   (v \<in> set (dict_values left_ordering) \<union> set (dict_values right_ordering) \<longrightarrow>
      v \<in> {''DMN'', ''DAN'', ''SAN'', ''AUD'', ''VIS'', ''other''})"
proof (intro conjI impI)
  assume "dict_getitem left_ordering k = Inr v"
  then have "v \<in> set (dict_values left_ordering)" by (rule dict_getitem_value)
  then show "v \<in> {''DMN'', ''DAN'', ''SAN'', ''AUD'', ''VIS'', ''other''}"
    by (simp only: left_ordering_values)
next
  assume "dict_getitem right_ordering k = Inr v"
  then have "v \<in> set (dict_values right_ordering)" by (rule dict_getitem_value)
  then show "v \<in> {''DMN'', ''DAN'', ''SAN'', ''AUD'', ''VIS'', ''other''}"
    by (simp only: right_ordering_values)
next
  assume "v \<in> set (dict_values left_ordering) \<union> set (dict_values right_ordering)"
  then show "v \<in> {''DMN'', ''DAN'', ''SAN'', ''AUD'', ''VIS'', ''other''}"
    by (simp only: left_ordering_values right_ordering_values Un_absorb)
qed

theorem values_in_label_set_witness:
  "dict_getitem left_ordering ''insula'' = Inr ''SAN'' \<and>
   dict_getitem right_ordering ''insula'' = Inr ''SAN'' \<and>
   ''SAN'' \<in> set (dict_values left_ordering) \<union> set (dict_values right_ordering) \<and>
   ''SAN'' \<in> {''DMN'', ''DAN'', ''SAN'', ''AUD'', ''VIS'', ''other''}"
proof -
  have l: "dict_getitem left_ordering ''insula'' = Inr ''SAN''"
    by (simp add: left_ordering_items)
  have r: "dict_getitem right_ordering ''insula'' = Inr ''SAN''"
    by (simp add: right_ordering_items)
  have m: "''SAN'' \<in> set (dict_values left_ordering) \<union> set (dict_values right_ordering)"
    using dict_getitem_value [OF l] by simp
  from values_in_label_set [of "''insula''" "''SAN''"] l r m show ?thesis
    by blast
qed

text \<open>
  C4. The literal lookups: \<open>left_ordering["caudalanteriorcingulate"]\<close> is DAN while
  \<open>right_ordering["caudalanteriorcingulate"]\<close> is DMN; in the left table insula is SAN,
  cuneus is VIS, superiortemporal is AUD and bankssts is other.
\<close>

theorem literal_lookups:
  "dict_getitem left_ordering ''caudalanteriorcingulate'' = Inr ''DAN'' \<and>
   dict_getitem right_ordering ''caudalanteriorcingulate'' = Inr ''DMN'' \<and>
   dict_getitem left_ordering ''insula'' = Inr ''SAN'' \<and>
   dict_getitem left_ordering ''cuneus'' = Inr ''VIS'' \<and>
   dict_getitem left_ordering ''superiortemporal'' = Inr ''AUD'' \<and>
   dict_getitem left_ordering ''bankssts'' = Inr ''other''"
  by (simp add: left_ordering_items right_ordering_items)

text \<open>
  C5. For every region name that is not a key of the tables, subscription of either table
  raises \<open>KeyError\<close> with that name, also when evaluated as a lookup in the module's
  state, and in particular never returns the label other.
\<close>

theorem unknown_region_raises:
  assumes "k \<notin> set (dict_keys left_ordering) \<union> set (dict_keys right_ordering)"
  shows "dict_getitem left_ordering k = Inl (KeyError k) \<and>
         dict_getitem right_ordering k = Inl (KeyError k) \<and>
         fst (lookup n k module_init) = Inl (KeyError k) \<and>
         dict_getitem left_ordering k \<noteq> Inr ''other'' \<and>
         dict_getitem right_ordering k \<noteq> Inr ''other''"
proof -
  from assms have l: "dict_getitem left_ordering k = Inl (KeyError k)"
    by (simp add: dict_getitem_absent)
  from assms have r: "dict_getitem right_ordering k = Inl (KeyError k)"
    by (simp add: dict_getitem_absent)
  have "fst (lookup n k module_init) = Inl (KeyError k)"
    by (cases n) (simp_all add: lookup_def module_init_def l r)
  with l r show ?thesis by simp
qed

theorem unknown_region_raises_witness:
  "''unknown_region'' \<notin> set (dict_keys left_ordering) \<union> set (dict_keys right_ordering) \<and>
   dict_getitem left_ordering ''unknown_region'' = Inl (KeyError ''unknown_region'') \<and>
   dict_getitem right_ordering ''unknown_region'' = Inl (KeyError ''unknown_region'') \<and>
   fst (lookup RightOrdering ''unknown_region'' module_init) = Inl (KeyError ''unknown_region'')"
proof -
  have h: "''unknown_region'' \<notin> set (dict_keys left_ordering) \<union> set (dict_keys right_ordering)"
    by (simp add: right_ordering_keys left_ordering_keys)
  from unknown_region_raises [OF h, of RightOrdering] h show ?thesis
    by blast
qed




text \<open>
  C7. Every key of both tables is a well-formed region name: within each table the keys
  are pairwise distinct, and every key is a non-empty string of lowercase letters only,
  so it has no uppercase letter and no whitespace.
\<close>

theorem region_names_well_formed:
  assumes "k \<in> set (dict_keys left_ordering) \<union> set (dict_keys right_ordering)"
  shows "distinct (dict_keys left_ordering) \<and> distinct (dict_keys right_ordering) \<and>
         k \<noteq> [] \<and> list_all is_lower k \<and> \<not> list_ex is_upper k \<and> \<not> list_ex is_space k"
proof -
  from assms have "k \<in> set (dict_keys left_ordering)"
    by (simp add: right_ordering_keys)
  with left_ordering_key_chars
  have "k \<noteq> [] \<and> list_all is_lower k \<and> \<not> list_ex is_upper k \<and> \<not> list_ex is_space k"
    unfolding list_all_iff by blast
  with left_ordering_keys_distinct right_ordering_keys_distinct show ?thesis
    by blast
qed

theorem region_names_well_formed_witness:
  "''parsorbitalis'' \<in> set (dict_keys left_ordering) \<union> set (dict_keys right_ordering) \<and>
   distinct (dict_keys left_ordering) \<and> distinct (dict_keys right_ordering) \<and>
   list_all is_lower ''parsorbitalis'' \<and> \<not> list_ex is_space ''parsorbitalis''"
proof -
  have h: "''parsorbitalis'' \<in> set (dict_keys left_ordering) \<union> set (dict_keys right_ordering)"
    by (simp add: right_ordering_keys left_ordering_keys)
  from region_names_well_formed [OF h] h show ?thesis
    by blast
qed



text \<open>
  C9. The two tables differ at exactly one key: for every name other than
  caudalanteriorcingulate the two subscriptions agree, and at caudalanteriorcingulate the
  left table gives DAN and the right table gives DMN, which differ.
\<close>

theorem tables_differ_only_at_cac:
  "(k \<noteq> ''caudalanteriorcingulate'' \<longrightarrow>
      dict_getitem left_ordering k = dict_getitem right_ordering k) \<and>
   dict_getitem left_ordering ''caudalanteriorcingulate'' = Inr ''DAN'' \<and>
   dict_getitem right_ordering ''caudalanteriorcingulate'' = Inr ''DMN'' \<and>
   dict_getitem left_ordering ''caudalanteriorcingulate'' \<noteq>
   dict_getitem right_ordering ''caudalanteriorcingulate''"
proof -
  have "k \<noteq> ''caudalanteriorcingulate'' \<longrightarrow>
          dict_getitem left_ordering k = dict_getitem right_ordering k"
    unfolding left_ordering_split right_ordering_split
    by (intro impI) (rule dict_getitem_other_key)
  moreover have "dict_getitem left_ordering ''caudalanteriorcingulate'' = Inr ''DAN''"
    by (simp add: left_ordering_items)
  moreover have "dict_getitem right_ordering ''caudalanteriorcingulate'' = Inr ''DMN''"
    by (simp add: right_ordering_items)
  ultimately show ?thesis by simp
qed

theorem tables_differ_only_at_cac_witness:
  "''precuneus'' \<noteq> ''caudalanteriorcingulate'' \<and>
   dict_getitem left_ordering ''precuneus'' = dict_getitem right_ordering ''precuneus'' \<and>
   dict_getitem left_ordering ''precuneus'' = Inr ''DMN''"
proof -
  have h: "''precuneus'' \<noteq> ''caudalanteriorcingulate''" by simp
  have v: "dict_getitem left_ordering ''precuneus'' = Inr ''DMN''"
    by (simp add: left_ordering_items)
  from tables_differ_only_at_cac [of "''precuneus''"] h v show ?thesis
    by blast
qed

text \<open>
  C10. Every label of the closed set is used: each of DMN, DAN, SAN, AUD, VIS and other
  is the value of at least one key of the left table and of at least one key of the right
  table, and AUD is assigned to exactly one region per table, superiortemporal.
\<close>

theorem every_label_used:
  "''DMN'' \<in> set (dict_values left_ordering) \<and> ''DMN'' \<in> set (dict_values right_ordering) \<and>
   ''DAN'' \<in> set (dict_values left_ordering) \<and> ''DAN'' \<in> set (dict_values right_ordering) \<and>
   ''SAN'' \<in> set (dict_values left_ordering) \<and> ''SAN'' \<in> set (dict_values right_ordering) \<and>
   ''AUD'' \<in> set (dict_values left_ordering) \<and> ''AUD'' \<in> set (dict_values right_ordering) \<and>
   ''VIS'' \<in> set (dict_values left_ordering) \<and> ''VIS'' \<in> set (dict_values right_ordering) \<and>
   ''other'' \<in> set (dict_values left_ordering) \<and> ''other'' \<in> set (dict_values right_ordering) \<and>
   keys_with_label left_ordering ''AUD'' = [''superiortemporal''] \<and>
   keys_with_label right_ordering ''AUD'' = [''superiortemporal'']"
proof -
  have "keys_with_label left_ordering ''AUD'' = [''superiortemporal'']"
    by (simp add: keys_with_label_def left_ordering_items)
  moreover have "keys_with_label right_ordering ''AUD'' = [''superiortemporal'']"
    by (simp add: keys_with_label_def right_ordering_items)
  ultimately show ?thesis
    by (simp add: left_ordering_values right_ordering_values)
qed

end
